theory Spec2Isabelle
  imports Complex_Main "HOL-Library.Code_Target_Nat"
begin

section \<open>Photo ingestion and enrichment: a shallow embedding\<close>

text \<open>
  The development follows the TypeScript sources of the photo geolocation application:
  the GPS normaliser (\<^verbatim>\<open>lib/gps\<close>), the vision providers
  (\<^verbatim>\<open>lib/ai/visionProvider\<close>), and the route handlers under
  \<^verbatim>\<open>app/api/photos\<close>.

  Conventions. A JavaScript string is a \<^typ>\<open>string\<close>, one \<^typ>\<open>char\<close> per code unit,
  so the model covers the strings whose code units are below 256. A JavaScript number is
  a \<^typ>\<open>real\<close>: rounding, infinities and NaN are outside the model. \<^verbatim>\<open>File.size\<close> is a
  \<^typ>\<open>nat\<close>. A thrown \<^verbatim>\<open>Error\<close> is \<open>Inl\<close> of its message.

  The record store and the file system are a value of type \<open>World\<close> that each handler
  takes and returns; their operations fail only where the model says so (an update of a
  missing row, a second row with the same key). A handler runs as one step, and a provider
  call that a handler starts stays pending until a later step settles it.
\<close>

subsection \<open>String built-ins used by the sources\<close>

definition startsWith :: "string \<Rightarrow> string \<Rightarrow> bool" where
  "startsWith s p = (take (length p) s = p)"

definition endsWith :: "string \<Rightarrow> string \<Rightarrow> bool" where
  "endsWith s p = (length p \<le> length s \<and> drop (length s - length p) s = p)"

fun includes_str :: "string \<Rightarrow> string \<Rightarrow> bool" where
  "includes_str [] p = (p = [])"
| "includes_str (c # cs) p = (startsWith (c # cs) p \<or> includes_str cs p)"

text \<open>\<^verbatim>\<open>String.prototype.toLowerCase\<close> on code units below 256: the letters \<open>A\<close> to
  \<open>Z\<close>, and the accented capitals 192 to 222 except the multiplication sign 215, move to
  their small letters; every other code unit stays.\<close>

definition lowerChar :: "char \<Rightarrow> char" where
  "lowerChar c =
     (case map_of (zip ''ABCDEFGHIJKLMNOPQRSTUVWXYZ'' ''abcdefghijklmnopqrstuvwxyz'') c of
        Some d \<Rightarrow> d
      | None \<Rightarrow>
          if 192 \<le> (of_char c :: nat) \<and> (of_char c :: nat) \<le> 222 \<and> (of_char c :: nat) \<noteq> 215
          then char_of (of_char c + 32 :: nat)
          else c)"

definition toLowerCase :: "string \<Rightarrow> string" where
  "toLowerCase s = map lowerChar s"

text \<open>White space removed by \<^verbatim>\<open>String.prototype.trim\<close>, among the code units below 256:
  tab, line feed, vertical tab, form feed, carriage return, space and no-break space.\<close>

definition isWhiteSpace :: "char \<Rightarrow> bool" where
  "isWhiteSpace c = (of_char c \<in> {9, 10, 11, 12, 13, 32, 160 :: nat})"

definition trim :: "string \<Rightarrow> string" where
  "trim s = rev (dropWhile isWhiteSpace (rev (dropWhile isWhiteSpace s)))"

subsection \<open>GPS normaliser\<close>

text \<open>The argument type of \<^verbatim>\<open>normalizeGps\<close> is
  \<^verbatim>\<open>number | number[] | undefined | null\<close>.\<close>

datatype GpsValue = Undefined | Null | Num real | Arr "real list"

definition normalizeGps :: "GpsValue \<Rightarrow> real option" where
  "normalizeGps v =
     (case v of
        Undefined \<Rightarrow> None
      | Null \<Rightarrow> None
      | Num n \<Rightarrow> Some n
      | Arr xs \<Rightarrow>
          if length xs \<ge> 3 then Some (xs ! 0 + xs ! 1 / 60 + xs ! 2 / 3600) else None)"

text \<open>The contract as the specification words it: a triple of degrees, minutes and
  seconds is converted, a bare number is returned as it is, every other shape is absent.\<close>

definition normalizeGps_spec :: "GpsValue \<Rightarrow> real option" where
  "normalizeGps_spec v =
     (case v of
        Arr [d, m, s] \<Rightarrow> Some (d + m / 60 + s / 3600)
      | Num n \<Rightarrow> Some n
      | _ \<Rightarrow> None)"

text \<open>The inputs on which the source and the contract differ: arrays of more than
  three elements.\<close>

definition longerThanTriple :: "GpsValue \<Rightarrow> bool" where
  "longerThanTriple v = (case v of Arr xs \<Rightarrow> length xs > 3 | _ \<Rightarrow> False)"

subsection \<open>Vision provider selection\<close>

datatype VisionProvider = MockVisionProvider | OllamaVisionProvider

text \<open>\<^verbatim>\<open>process.env.VISION_PROVIDER\<close> is absent (\<open>None\<close>) or a string; the empty string
  is falsy, so \<^verbatim>\<open>||\<close> replaces it by the default as well.\<close>

definition getVisionProvider :: "string option \<Rightarrow> VisionProvider" where
  "getVisionProvider env =
     (let provider = (case env of None \<Rightarrow> ''mock'' | Some v \<Rightarrow> if v = [] then ''mock'' else v)
      in if provider = ''mock'' then MockVisionProvider
         else if provider = ''ollama'' then OllamaVisionProvider
         else MockVisionProvider)"

subsection \<open>Decimal numerals\<close>

text \<open>The decimal digits of a natural number, as \<^verbatim>\<open>String(n)\<close> prints them.\<close>

definition digitChar :: "nat \<Rightarrow> char" where
  "digitChar d = ''0123456789'' ! d"

function showNat :: "nat \<Rightarrow> string" where
  "showNat n = (if n < 10 then [digitChar n] else showNat (n div 10) @ [digitChar (n mod 10)])"
  by pat_completeness auto
termination
  by (relation "measure (\<lambda>n. n)") auto

declare showNat.simps [simp del]

subsection \<open>Side effects\<close>

text \<open>The operations of a handler or of a provider call that reach outside the process,
  in the order in which they are started. Reads of the record store are not listed.\<close>

datatype effect =
    ArrayBuffer
  | ExifParse
  | WriteFile string
  | Unlink string
  | DbCreatePhoto string
  | DbUpdatePhoto string
  | DbDeletePhoto string
  | DbCreateComment string
  | Dispatch string string
  | ReadFile string
  | Fetch string

type_synonym bytes = string

subsection \<open>Remote vision provider\<close>

text \<open>What the remote provider meets outside the process. \<open>readFile\<close> answers for the
  file that \<^verbatim>\<open>join(process.cwd(), "public", "uploads", rel)\<close> names, given \<open>rel\<close>;
  \<open>fetch\<close> answers for the chat request, given the bytes sent. A rejected promise is
  \<open>Inl\<close> of the error's message. \<open>postprocess\<close> stands for the clean-up of the model's
  text by regular expressions (markdown markers, lead-in phrases, first sentence, 200
  characters), on which no property below depends.\<close>

record JsonData =
  messageContent :: "string option"
  keys :: "string list"

record HttpResponse =
  ok :: bool
  status :: nat
  statusText :: string
  responseText :: string
  json :: "string + JsonData"

record OllamaEnv =
  baseUrl :: string
  readFile :: "string \<Rightarrow> string + bytes"
  fetch :: "bytes \<Rightarrow> string + HttpResponse"
  postprocess :: "string \<Rightarrow> string"

definition joinComma :: "string list \<Rightarrow> string" where
  "joinComma ks = (case ks of [] \<Rightarrow> [] | k # r \<Rightarrow> k @ concat (map (\<lambda>x. '', '' @ x) r))"

text \<open>\<^verbatim>\<open>s.replace(/^\/uploads\//, "")\<close>: the prefix is removed when it is there.\<close>

definition stripUploads :: "string \<Rightarrow> string" where
  "stripUploads s = (if startsWith s ''/uploads/'' then drop (length ''/uploads/'') s else s)"

text \<open>The body of the \<^verbatim>\<open>try\<close> block of \<^verbatim>\<open>OllamaVisionProvider.describeImage\<close>.\<close>

definition describeImage_try :: "OllamaEnv \<Rightarrow> string \<Rightarrow> effect list \<times> (string + string)" where
  "describeImage_try env imageUrlOrPath =
     (if \<not> startsWith imageUrlOrPath ''/uploads/''
      then ([], Inl ''Invalid image path. Only /uploads/ paths are allowed.'')
      else
        let rel = stripUploads imageUrlOrPath in
        if includes_str rel ''..'' \<or> includes_str rel [CHR 0x5C] \<or> startsWith rel ''/''
        then ([], Inl ''Invalid image path.'')
        else if length rel > 200
        then ([], Inl ''Invalid image path.'')
        else if \<not> endsWith (toLowerCase rel) ''.jpg'' \<and> \<not> endsWith (toLowerCase rel) ''.jpeg''
        then ([], Inl ''Invalid image path. Only .jpg/.jpeg files are allowed.'')
        else
          (case readFile env rel of
             Inl e \<Rightarrow> ([ReadFile rel], Inl e)
           | Inr imageBuffer \<Rightarrow>
               (case fetch env imageBuffer of
                  Inl e \<Rightarrow> ([ReadFile rel, Fetch (baseUrl env @ ''/api/chat'')], Inl e)
                | Inr response \<Rightarrow>
                    ([ReadFile rel, Fetch (baseUrl env @ ''/api/chat'')],
                     if \<not> ok response
                     then Inl (''Ollama API error ('' @ showNat (status response) @ ''): ''
                               @ (if responseText response = [] then statusText response
                                  else responseText response))
                     else
                       (case json response of
                          Inl e \<Rightarrow> Inl e
                        | Inr data \<Rightarrow>
                            (case messageContent data of
                               Some c \<Rightarrow>
                                 if c \<noteq> [] then Inr (postprocess env c)
                                 else Inl (''Unexpected response format from Ollama API. Expected data.message.content, got keys: ''
                                           @ joinComma (keys data))
                             | None \<Rightarrow>
                                 Inl (''Unexpected response format from Ollama API. Expected data.message.content, got keys: ''
                                      @ joinComma (keys data))))))))"

text \<open>The \<^verbatim>\<open>catch\<close> block: every error the \<^verbatim>\<open>try\<close> block throws is an
  \<^verbatim>\<open>Error\<close>; its message is replaced for connection failures and missing files
  and kept otherwise.\<close>

definition describeImage_catch :: "string \<Rightarrow> string \<Rightarrow> string \<Rightarrow> string" where
  "describeImage_catch base imageUrlOrPath message =
     (if includes_str message ''fetch failed'' \<or> includes_str message ''ECONNREFUSED''
         \<or> includes_str message ''ENOTFOUND''
      then ''Cannot connect to Ollama at '' @ base @ ''. Make sure Ollama is running.''
      else if includes_str message ''ENOENT''
      then ''Image file not found: '' @ imageUrlOrPath
      else message)"

definition describeImage :: "OllamaEnv \<Rightarrow> string \<Rightarrow> effect list \<times> (string + string)" where
  "describeImage env imageUrlOrPath =
     (case describeImage_try env imageUrlOrPath of
        (effs, Inl message) \<Rightarrow>
          (effs, Inl (describeImage_catch (baseUrl env) imageUrlOrPath message))
      | (effs, Inr description) \<Rightarrow> (effs, Inr description))"

text \<open>\<^verbatim>\<open>MockVisionProvider.describeImage\<close>: a constant, after a delay.\<close>

definition describeImage_Mock :: "string \<Rightarrow> effect list \<times> (string + string)" where
  "describeImage_Mock imageUrlOrPath = ([], Inr ''A photo taken near railway tracks and vegetation.'')"

subsection \<open>The record store, the blob store and the background work\<close>

datatype AiStatus = PENDING | DONE | ERROR

text \<open>A row of the \<^verbatim>\<open>photos\<close> table; the table is a map from the primary key
  \<^verbatim>\<open>id\<close> to the other columns.\<close>

record Photo =
  ownerId :: string
  url :: string
  lat :: real
  lng :: real
  createdAt :: nat
  aiStatus :: AiStatus
  aiDescription :: "string option"
  aiError :: "string option"

record Comment =
  commentId :: string
  photoId :: string
  authorId :: string
  commentContent :: string
  commentCreatedAt :: nat

text \<open>A provider call that was started and has not settled yet, with the handler that
  started it: the upload (\<^verbatim>\<open>generateAIDescription\<close>) or the regeneration (its inline
  promise chain). Both carry the photo's id and the image reference.\<close>

datatype Task = UploadTask string string | RegenerateTask string string

text \<open>\<open>uploads\<close> holds the files under \<^verbatim>\<open>public/\<close>, by their URL path.\<close>

record World =
  photos :: "string \<rightharpoonup> Photo"
  comments :: "Comment list"
  uploads :: "string \<rightharpoonup> bytes"
  pending :: "Task list"

datatype body =
    ErrorBody string
  | MessageBody string
  | PhotoBody string string real real nat AiStatus "string option"
  | RegenerateBody string AiStatus
  | CommentBody string string nat string

type_synonym response = "nat \<times> body"

text \<open>\<^verbatim>\<open>db.photo.update\<close> throws when no row has the id (\<open>None\<close>).\<close>

definition dbUpdate :: "World \<Rightarrow> string \<Rightarrow> (Photo \<Rightarrow> Photo) \<Rightarrow> World option" where
  "dbUpdate w pid f =
     (case photos w pid of
        None \<Rightarrow> None
      | Some p \<Rightarrow> Some (w\<lparr>photos := (photos w)(pid \<mapsto> f p)\<rparr>))"

text \<open>\<^verbatim>\<open>db.photo.findFirst({ where: { id, ownerId } })\<close>.\<close>

definition findOwned :: "World \<Rightarrow> string \<Rightarrow> string \<Rightarrow> Photo option" where
  "findOwned w pid userId =
     (case photos w pid of
        None \<Rightarrow> None
      | Some p \<Rightarrow> if ownerId p = userId then Some p else None)"

subsection \<open>Enrichment completion\<close>

text \<open>\<^verbatim>\<open>generateAIDescription\<close>, from the point where the promise of
  \<^verbatim>\<open>provider.describeImage\<close> settles with \<open>outcome\<close> (\<open>Inl\<close> the message of the
  error it rejects with). A failing update inside \<^verbatim>\<open>try\<close> is caught as well, and a
  failing update inside \<^verbatim>\<open>catch\<close> rejects the task, which is only logged.\<close>

definition generateAIDescription :: "string + string \<Rightarrow> string \<Rightarrow> World \<Rightarrow> World" where
  "generateAIDescription outcome pid w =
     (let onError = (\<lambda>message.
            case dbUpdate w pid (\<lambda>p. p\<lparr>aiStatus := ERROR, aiError := Some message\<rparr>) of
              Some w' \<Rightarrow> w'
            | None \<Rightarrow> w)
      in case outcome of
           Inr description \<Rightarrow>
             (case dbUpdate w pid
                     (\<lambda>p. p\<lparr>aiStatus := DONE, aiDescription := Some description,
                             aiError := None\<rparr>) of
                Some w' \<Rightarrow> w'
              | None \<Rightarrow> onError ''Record to update not found.'')
         | Inl message \<Rightarrow> onError message)"

text \<open>The promise chain of the regeneration handler:
  \<^verbatim>\<open>describeImage(url).then(update DONE).catch(update ERROR)\<close>.\<close>

definition regenerateCompletion :: "string + string \<Rightarrow> string \<Rightarrow> World \<Rightarrow> World" where
  "regenerateCompletion outcome pid w =
     (let catch = (\<lambda>message.
            case dbUpdate w pid (\<lambda>p. p\<lparr>aiStatus := ERROR, aiError := Some message\<rparr>) of
              Some w' \<Rightarrow> w'
            | None \<Rightarrow> w)
      in case outcome of
           Inr description \<Rightarrow>
             (case dbUpdate w pid
                     (\<lambda>p. p\<lparr>aiStatus := DONE, aiDescription := Some description,
                             aiError := None\<rparr>) of
                Some w' \<Rightarrow> w'
              | None \<Rightarrow> catch ''Record to update not found.'')
         | Inl message \<Rightarrow> catch message)"

text \<open>What the selected provider answers for an image reference.\<close>

definition providerOutcome :: "string option \<Rightarrow> OllamaEnv \<Rightarrow> string \<Rightarrow> string + string" where
  "providerOutcome config env imageUrl =
     (case getVisionProvider config of
        MockVisionProvider \<Rightarrow> snd (describeImage_Mock imageUrl)
      | OllamaVisionProvider \<Rightarrow> snd (describeImage env imageUrl))"

text \<open>The \<open>i\<close>-th pending provider call settles, under the configuration and the
  surroundings it meets, and its completion write runs.\<close>

definition settle :: "string option \<Rightarrow> OllamaEnv \<Rightarrow> nat \<Rightarrow> World \<Rightarrow> World" where
  "settle config env i w =
     (if i < length (pending w)
      then
        let w' = w\<lparr>pending := take i (pending w) @ drop (Suc i) (pending w)\<rparr>
        in (case pending w ! i of
              UploadTask pid imageUrl \<Rightarrow>
                generateAIDescription (providerOutcome config env imageUrl) pid w'
            | RegenerateTask pid imageUrl \<Rightarrow>
                regenerateCompletion (providerOutcome config env imageUrl) pid w')
      else w)"

subsection \<open>Upload\<close>

definition MAX_FILE_SIZE :: nat where
  "MAX_FILE_SIZE = 10 * 1024 * 1024"

definition ALLOWED_MIME_TYPES :: "string list" where
  "ALLOWED_MIME_TYPES = [''image/jpeg'', ''image/jpg'']"

record UploadedFile =
  fileType :: string
  fileSize :: nat
  fileBytes :: bytes

text \<open>The fields picked from the EXIF block.\<close>

record ExifData =
  latitude :: GpsValue
  longitude :: GpsValue
  GPSLatitude :: GpsValue
  GPSLongitude :: GpsValue

text \<open>What the upload handler takes from outside: the EXIF parser (\<open>Inl\<close> when it throws,
  \<open>Inr None\<close> when it returns \<^verbatim>\<open>undefined\<close>), the generated file name, the key and the
  time stamp the record store gives the new row.\<close>

record UploadEnv =
  exifrParse :: "bytes \<Rightarrow> string + ExifData option"
  uuidv4 :: string
  newPhotoId :: string
  photoNow :: nat

text \<open>Truthiness of a value of type \<^typ>\<open>GpsValue\<close>, and the operator \<^verbatim>\<open>||\<close> on two of
  them: \<^verbatim>\<open>undefined\<close>, \<^verbatim>\<open>null\<close> and the number 0 are falsy, every array is
  truthy.\<close>

definition truthy :: "GpsValue \<Rightarrow> bool" where
  "truthy v = (case v of Undefined \<Rightarrow> False | Null \<Rightarrow> False | Num n \<Rightarrow> n \<noteq> 0 | Arr xs \<Rightarrow> True)"

definition orElse :: "GpsValue \<Rightarrow> GpsValue \<Rightarrow> GpsValue" where
  "orElse a b = (if truthy a then a else b)"

text \<open>\<^verbatim>\<open>exifData?.field\<close>.\<close>

definition optField :: "(ExifData \<Rightarrow> GpsValue) \<Rightarrow> ExifData option \<Rightarrow> GpsValue" where
  "optField field exifData = (case exifData of None \<Rightarrow> Undefined | Some d \<Rightarrow> field d)"

text \<open>\<^verbatim>\<open>(size / (1024 * 1024)).toFixed(2)\<close>. The quotient by \<open>2^20\<close> is exact in
  binary floating point, and \<^verbatim>\<open>toFixed(2)\<close> prints the nearest multiple of 1/100, the
  larger one at a tie: \<open>\<lfloor>size * 100 / 2^20 + 1/2\<rfloor>\<close> hundredths.\<close>

definition sizeMB :: "nat \<Rightarrow> string" where
  "sizeMB bytes =
     (let n = (bytes * 200 + 1024 * 1024) div (2 * (1024 * 1024))
      in showNat (n div 100) @ ''.'' @ [digitChar (n div 10 mod 10), digitChar (n mod 10)])"

definition POST_photos ::
  "UploadEnv \<Rightarrow> World \<Rightarrow> string option \<Rightarrow> UploadedFile option \<Rightarrow> response \<times> World \<times> effect list"
where
  "POST_photos env w session file =
     (case session of
        None \<Rightarrow> ((401, ErrorBody ''Unauthorized''), w, [])
      | Some userId \<Rightarrow>
     (case file of
        None \<Rightarrow>
          ((400, ErrorBody ''No file provided. Please select an image file to upload.''), w, [])
      | Some f \<Rightarrow>
          if toLowerCase (fileType f) \<notin> set ALLOWED_MIME_TYPES
          then ((400, ErrorBody (''Invalid file type. Only JPEG/JPG images are allowed. Received: ''
                                 @ fileType f)), w, [])
          else if fileSize f > MAX_FILE_SIZE
          then ((400, ErrorBody (''File size ('' @ sizeMB (fileSize f)
                                 @ ''MB) exceeds the 10MB limit. Please upload a smaller image.'')),
                w, [])
          else
            (case exifrParse env (fileBytes f) of
               Inl e \<Rightarrow>
                 (if e = ''Unauthorized'' then (401, ErrorBody ''Unauthorized'')
                  else (500, ErrorBody ''Internal server error''),
                  w, [ArrayBuffer, ExifParse])
             | Inr exifData \<Rightarrow>
                 (case (normalizeGps (orElse (optField latitude exifData)
                                             (optField GPSLatitude exifData)),
                        normalizeGps (orElse (optField longitude exifData)
                                             (optField GPSLongitude exifData))) of
                    (Some la, Some lo) \<Rightarrow>
                      let filename = uuidv4 env @ ''.jpg'';
                          path = ''/uploads/'' @ filename;
                          w1 = w\<lparr>uploads := (uploads w)(path \<mapsto> fileBytes f)\<rparr>
                      in if photos w1 (newPhotoId env) \<noteq> None
                         then ((500, ErrorBody ''Internal server error''), w1,
                               [ArrayBuffer, ExifParse, WriteFile path])
                         else
                           ((201, PhotoBody (newPhotoId env) path la lo (photoNow env) PENDING None),
                            w1\<lparr>photos := (photos w1)(newPhotoId env \<mapsto>
                                   \<lparr>ownerId = userId, url = path, lat = la, lng = lo,
                                    createdAt = photoNow env, aiStatus = PENDING,
                                    aiDescription = None, aiError = None\<rparr>),
                                pending := pending w1 @ [UploadTask (newPhotoId env) path]\<rparr>,
                            [ArrayBuffer, ExifParse, WriteFile path,
                             DbCreatePhoto (newPhotoId env), Dispatch (newPhotoId env) path])
                  | _ \<Rightarrow>
                      ((400, ErrorBody ''Image does not contain GPS coordinates in EXIF metadata. Please upload a photo taken with a device that has location services enabled.''),
                       w, [ArrayBuffer, ExifParse])))))"

subsection \<open>Delete\<close>

text \<open>Removing the row cascades to its comments; a failure to remove the file is
  swallowed, so the file is gone afterwards if it was there.\<close>

definition DELETE_photo ::
  "World \<Rightarrow> string option \<Rightarrow> string \<Rightarrow> response \<times> World \<times> effect list"
where
  "DELETE_photo w session pid =
     (case session of
        None \<Rightarrow> ((401, ErrorBody ''Unauthorized''), w, [])
      | Some userId \<Rightarrow>
          (case findOwned w pid userId of
             None \<Rightarrow> ((404, ErrorBody ''Photo not found''), w, [])
           | Some photo \<Rightarrow>
               ((200, MessageBody ''Photo deleted successfully''),
                w\<lparr>uploads := (uploads w)(url photo := None),
                  photos := (photos w)(pid := None),
                  comments := filter (\<lambda>c. photoId c \<noteq> pid) (comments w)\<rparr>,
                [Unlink (url photo), DbDeletePhoto pid])))"

subsection \<open>Regenerate\<close>

definition POST_regenerate ::
  "World \<Rightarrow> string option \<Rightarrow> string \<Rightarrow> response \<times> World \<times> effect list"
where
  "POST_regenerate w session pid =
     (case session of
        None \<Rightarrow> ((401, ErrorBody ''Unauthorized''), w, [])
      | Some userId \<Rightarrow>
          (case findOwned w pid userId of
             None \<Rightarrow> ((404, ErrorBody ''Photo not found''), w, [])
           | Some photo \<Rightarrow>
               (case dbUpdate w pid
                       (\<lambda>p. p\<lparr>aiStatus := PENDING, aiDescription := None, aiError := None\<rparr>) of
                  None \<Rightarrow> ((500, ErrorBody ''Internal server error''), w, [DbUpdatePhoto pid])
                | Some w1 \<Rightarrow>
                    ((200, RegenerateBody ''AI description regeneration started'' PENDING),
                     w1\<lparr>pending := pending w1 @ [RegenerateTask pid (url photo)]\<rparr>,
                     [DbUpdatePhoto pid, Dispatch pid (url photo)]))))"

subsection \<open>Comments\<close>

text \<open>The request body as \<^verbatim>\<open>request.json()\<close> and the destructuring see it: not JSON,
  the JSON value \<^verbatim>\<open>null\<close>, or a value whose \<^verbatim>\<open>content\<close> is a string (\<open>Some\<close>) or
  anything else, a missing one included (\<open>None\<close>).\<close>

datatype RequestBody = InvalidJson | NullBody | Body "string option"

record CommentEnv =
  newCommentId :: string
  commentNow :: nat

definition verifyPhotoExists :: "World \<Rightarrow> string \<Rightarrow> string option" where
  "verifyPhotoExists w pid =
     (case photos w pid of
        None \<Rightarrow> None
      | Some p \<Rightarrow> if pid = [] then None else Some pid)"

definition POST_comments ::
  "CommentEnv \<Rightarrow> World \<Rightarrow> string option \<Rightarrow> string \<Rightarrow> RequestBody
     \<Rightarrow> response \<times> World \<times> effect list"
where
  "POST_comments env w session pid request =
     (case session of
        None \<Rightarrow> ((401, ErrorBody ''Unauthorized''), w, [])
      | Some userId \<Rightarrow>
          (case verifyPhotoExists w pid of
             None \<Rightarrow> ((404, ErrorBody ''Photo not found''), w, [])
           | Some photo \<Rightarrow>
               (case request of
                  InvalidJson \<Rightarrow> ((400, ErrorBody ''Invalid JSON''), w, [])
                | NullBody \<Rightarrow> ((500, ErrorBody ''Internal server error''), w, [])
                | Body None \<Rightarrow>
                    ((400, ErrorBody ''Comment content is required and must be a string. Please provide a valid comment.''),
                     w, [])
                | Body (Some c) \<Rightarrow>
                    if c = []
                    then ((400, ErrorBody ''Comment content is required and must be a string. Please provide a valid comment.''),
                          w, [])
                    else
                      let trimmedContent = trim c in
                      if length trimmedContent = 0
                      then ((400, ErrorBody ''Comment cannot be empty. Please enter some text.''),
                            w, [])
                      else if length trimmedContent > 500
                      then ((400, ErrorBody (''Comment is too long ('' @ showNat (length trimmedContent)
                                             @ '' characters). Maximum length is 500 characters.'')),
                            w, [])
                      else
                        ((201, CommentBody (newCommentId env) trimmedContent (commentNow env) userId),
                         w\<lparr>comments := comments w @
                              [\<lparr>commentId = newCommentId env, photoId = pid, authorId = userId,
                                commentContent = trimmedContent,
                                commentCreatedAt = commentNow env\<rparr>]\<rparr>,
                         [DbCreateComment (newCommentId env)]))))"

subsection \<open>Requests and runs\<close>

text \<open>What can happen to the store: a request of a user, or a pending provider call
  that settles.\<close>

datatype Event =
    Upload UploadEnv "string option" "UploadedFile option"
  | Delete "string option" string
  | Regenerate "string option" string
  | AddComment CommentEnv "string option" string RequestBody
  | Settle "string option" OllamaEnv nat

fun step :: "World \<Rightarrow> Event \<Rightarrow> World" where
  "step w (Upload env session file) = fst (snd (POST_photos env w session file))"
| "step w (Delete session pid) = fst (snd (DELETE_photo w session pid))"
| "step w (Regenerate session pid) = fst (snd (POST_regenerate w session pid))"
| "step w (AddComment env session pid request) = fst (snd (POST_comments env w session pid request))"
| "step w (Settle config env i) = settle config env i w"

definition run :: "World \<Rightarrow> Event list \<Rightarrow> World" where
  "run w evs = foldl step w evs"

subsection \<open>Concrete inputs\<close>

definition emptyWorld :: World where
  "emptyWorld = \<lparr>photos = Map.empty, comments = [], uploads = Map.empty, pending = []\<rparr>"

text \<open>An EXIF parser that throws on every byte stream, one that finds the coordinates
  (48.8584, 2.2945) as decimals and as triples, one that finds a photo taken on the
  equator (decimal latitude 0, raw triple 0, 0, 0), and one that finds a photo taken in the
  southern hemisphere, where the decimal latitude is negative and the raw triple carries no
  sign.\<close>

definition parserThrows :: UploadEnv where
  "parserThrows = \<lparr>exifrParse = (\<lambda>_. Inl ''Unknown file format''), uuidv4 = ''u1'',
     newPhotoId = ''p1'', photoNow = 0\<rparr>"

definition parserParis :: UploadEnv where
  "parserParis =
     \<lparr>exifrParse = (\<lambda>_. Inr (Some \<lparr>latitude = Num 48.8584, longitude = Num 2.2945,
                                     GPSLatitude = Arr [48, 51, 30.24],
                                     GPSLongitude = Arr [2, 17, 40.2]\<rparr>)),
      uuidv4 = ''u1'', newPhotoId = ''p1'', photoNow = 0\<rparr>"





definition pngFile :: UploadedFile where
  "pngFile = \<lparr>fileType = ''image/png'', fileSize = 11534336, fileBytes = ''not a jpeg''\<rparr>"

definition largeJpeg :: UploadedFile where
  "largeJpeg = \<lparr>fileType = ''image/jpeg'', fileSize = 11534336, fileBytes = ''jpeg bytes''\<rparr>"

definition smallJpeg :: UploadedFile where
  "smallJpeg = \<lparr>fileType = ''IMAGE/JPEG'', fileSize = 4096, fileBytes = ''jpeg bytes''\<rparr>"

definition limitJpeg :: UploadedFile where
  "limitJpeg = \<lparr>fileType = ''image/jpg'', fileSize = 10485760, fileBytes = ''jpeg bytes''\<rparr>"

text \<open>A store with one photo of the user \<open>alice\<close>, described, with its file and one
  comment by \<open>bob\<close>.\<close>

definition alicePhoto :: Photo where
  "alicePhoto =
     \<lparr>ownerId = ''alice'', url = ''/uploads/u1.jpg'', lat = 48.8584, lng = 2.2945,
      createdAt = 0, aiStatus = DONE, aiDescription = Some ''empty train tracks'',
      aiError = None\<rparr>"

definition aliceWorld :: World where
  "aliceWorld =
     \<lparr>photos = [''p1'' \<mapsto> alicePhoto],
      comments = [\<lparr>commentId = ''c1'', photoId = ''p1'', authorId = ''bob'',
                   commentContent = ''nice'', commentCreatedAt = 1\<rparr>],
      uploads = [''/uploads/u1.jpg'' \<mapsto> ''jpeg bytes''],
      pending = []\<rparr>"

definition commentEnv :: CommentEnv where
  "commentEnv = \<lparr>newCommentId = ''c2'', commentNow = 2\<rparr>"

text \<open>The inference endpoint answering with a text, and the endpoint being down.\<close>

definition ollamaUp :: OllamaEnv where
  "ollamaUp =
     \<lparr>baseUrl = ''http://localhost:11434'', readFile = (\<lambda>_. Inr ''jpeg bytes''),
      fetch = (\<lambda>_. Inr \<lparr>ok = True, status = 200, statusText = ''OK'', responseText = [],
                          json = Inr \<lparr>messageContent = Some ''empty train tracks'',
                                     keys = [''model'', ''message'']\<rparr>\<rparr>),
      postprocess = (\<lambda>s. s)\<rparr>"

definition ollamaDown :: OllamaEnv where
  "ollamaDown =
     \<lparr>baseUrl = ''http://localhost:11434'', readFile = (\<lambda>_. Inr ''jpeg bytes''),
      fetch = (\<lambda>_. Inl ''fetch failed''), postprocess = (\<lambda>s. s)\<rparr>"

section \<open>Properties\<close>

subsection \<open>Facts about the string built-ins\<close>

lemma startsWith_decomp: "startsWith s p \<Longrightarrow> s = p @ drop (length p) s"
  unfolding startsWith_def by (metis append_take_drop_id)

lemma endsWith_iff: "endsWith s p \<longleftrightarrow> (\<exists>a. s = a @ p)"
  unfolding endsWith_def
  by (metis append_eq_conv_conj append_take_drop_id diff_add_inverse2 le_add2 length_append
      length_drop)

text \<open>A suffix that does not contain the character \<open>c\<close> lies behind every occurrence
  of \<open>c\<close>.\<close>

lemma endsWith_sep:
  assumes "c \<notin> set p"
  shows "endsWith (xs @ c # r) p \<longleftrightarrow> endsWith r p"
proof
  assume "endsWith r p"
  then obtain a where "r = a @ p" by (auto simp: endsWith_iff)
  then have "xs @ c # r = (xs @ c # a) @ p" by simp
  then show "endsWith (xs @ c # r) p" unfolding endsWith_iff by blast
next
  assume "endsWith (xs @ c # r) p"
  then obtain a where a: "xs @ c # r = a @ p" by (auto simp: endsWith_iff)
  then obtain us where "(xs = a @ us \<and> us @ c # r = p) \<or> (xs @ us = a \<and> c # r = us @ p)"
    by (auto simp: append_eq_append_conv2)
  with assms have us: "c # r = us @ p" by auto
  with assms obtain us' where "r = us' @ p"
    by (cases us) auto
  then show "endsWith r p" unfolding endsWith_iff by blast
qed

lemma includes_uploads_dots:
  "includes_str (''/uploads/'' @ r) ''..'' = includes_str r ''..''"
  by (simp add: startsWith_def)

lemma includes_uploads_backslash:
  "includes_str (''/uploads/'' @ r) [CHR 0x5C] = includes_str r [CHR 0x5C]"
  by (simp add: startsWith_def)

lemma endsWith_uploads:
  assumes "CHR ''/'' \<notin> set p"
  shows "endsWith (toLowerCase (''/uploads/'' @ r)) p = endsWith (toLowerCase r) p"
proof -
  have e: "toLowerCase (''/uploads/'' @ r) = ''/uploads'' @ CHR ''/'' # toLowerCase r"
    by (simp add: toLowerCase_def lowerChar_def)
  show ?thesis unfolding e by (rule endsWith_sep [OF assms])
qed

lemma showNat_digit: "n < 10 \<Longrightarrow> showNat n = [digitChar n]"
  by (subst showNat.simps) simp

lemma showNat_more: "10 \<le> n \<Longrightarrow> showNat n = showNat (n div 10) @ [digitChar (n mod 10)]"
  by (subst showNat.simps) simp

lemma sizeMB_11MiB: "sizeMB 11534336 = ''11.00''"
  by (simp add: sizeMB_def showNat_digit showNat_more digitChar_def)

subsection \<open>GPS normaliser\<close>

text \<open>C2, as stated, fails: the source accepts every array of at least three numbers,
  so a four-element array (wrong arity) is converted from its first three elements
  instead of being absent.\<close>

theorem normalizeGps_arity_counterexample:
  "normalizeGps (Arr [1, 2, 3, 4]) = Some (1 + 2 / 60 + 3 / 3600)
   \<and> normalizeGps_spec (Arr [1, 2, 3, 4]) = None"
  by (simp add: normalizeGps_def normalizeGps_spec_def)

text \<open>C2, amended: an array of three or more numbers yields
  \<open>v0 + v1/60 + v2/3600\<close> (a triple \<open>[d, m, s]\<close> in particular), a bare number is
  returned unchanged, and the absent values and the arrays of fewer than three elements
  yield absent. On every input that is not an array of more than three elements the
  source agrees with the contract of the specification.\<close>

theorem normalizeGps_cases:
  "normalizeGps (Arr (d # m # s # rest)) = Some (d + m / 60 + s / 3600)
   \<and> normalizeGps (Arr [d, m, s]) = Some (d + m / 60 + s / 3600)
   \<and> normalizeGps (Num n) = Some n
   \<and> normalizeGps Undefined = None
   \<and> normalizeGps Null = None
   \<and> (length xs < 3 \<longrightarrow> normalizeGps (Arr xs) = None)
   \<and> (\<not> longerThanTriple v \<longrightarrow> normalizeGps v = normalizeGps_spec v)"
proof -
  have agree: "normalizeGps v = normalizeGps_spec v" if "\<not> longerThanTriple v"
  proof (cases v)
    case (Arr xs)
    with that have "length xs \<le> 3" by (simp add: longerThanTriple_def)
    then consider "xs = []" | a where "xs = [a]" | a b where "xs = [a, b]"
      | a b c where "xs = [a, b, c]"
      by (cases xs; cases "tl xs"; cases "tl (tl xs)"; cases "tl (tl (tl xs))") auto
    then show ?thesis
      using Arr by cases (simp_all add: normalizeGps_def normalizeGps_spec_def)
  qed (simp_all add: normalizeGps_def normalizeGps_spec_def)
  show ?thesis
    using agree by (simp add: normalizeGps_def)
qed

theorem normalizeGps_cases_witness:
  "normalizeGps (Arr [48, 51, 30, 7]) = Some (48 + 51 / 60 + 30 / 3600)
   \<and> normalizeGps (Arr [48, 51, 30]) = Some (48 + 51 / 60 + 30 / 3600)
   \<and> normalizeGps (Num 2.2945) = Some 2.2945
   \<and> length [1, 2 :: real] < 3 \<and> normalizeGps (Arr [1, 2]) = None
   \<and> \<not> longerThanTriple (Arr [48, 51, 30])
   \<and> normalizeGps (Arr [48, 51, 30]) = normalizeGps_spec (Arr [48, 51, 30])"
  using normalizeGps_cases [of 48 51 30 "[7]" "2.2945" "[1, 2]" "Arr [48, 51, 30]"]
  by (simp add: longerThanTriple_def normalizeGps_spec_def)

subsection \<open>Vision provider selection\<close>

text \<open>C8, as stated, fails: the configuration value \<open>remote\<close> is not recognised by
  the source and selects the mock provider.\<close>

theorem getVisionProvider_remote_counterexample:
  "getVisionProvider (Some ''remote'') \<noteq> OllamaVisionProvider"
  by (simp add: getVisionProvider_def)

text \<open>C8, amended: the recognised values are \<open>mock\<close> and \<open>ollama\<close>; \<open>mock\<close> selects the
  deterministic offline provider, \<open>ollama\<close> the live inference backend, and every other
  value, the empty one and the absent one select the mock provider.\<close>

theorem getVisionProvider_cases:
  "getVisionProvider (Some ''mock'') = MockVisionProvider
   \<and> getVisionProvider (Some ''ollama'') = OllamaVisionProvider
   \<and> getVisionProvider None = MockVisionProvider
   \<and> (v \<noteq> ''ollama'' \<longrightarrow> getVisionProvider (Some v) = MockVisionProvider)"
  by (simp add: getVisionProvider_def)

theorem getVisionProvider_cases_witness:
  "''remote'' \<noteq> ''ollama'' \<and> getVisionProvider (Some ''remote'') = MockVisionProvider"
  using getVisionProvider_cases [of "''remote''"] by simp

subsection \<open>Remote vision provider: confinement of the image reference\<close>

text \<open>The messages of the validation errors pass the \<^verbatim>\<open>catch\<close> block unchanged.\<close>

lemma rejected_messages_kept:
  "describeImage_catch b ref ''Invalid image path. Only /uploads/ paths are allowed.''
     = ''Invalid image path. Only /uploads/ paths are allowed.''"
  "describeImage_catch b ref ''Invalid image path.'' = ''Invalid image path.''"
  "describeImage_catch b ref ''Invalid image path. Only .jpg/.jpeg files are allowed.''
     = ''Invalid image path. Only .jpg/.jpeg files are allowed.''"
  by (simp_all add: describeImage_catch_def startsWith_def)

text \<open>C9: a reference that does not begin with \<open>/uploads/\<close>, or contains \<open>..\<close> or a
  backslash, or has a slash right after the prefix, or whose extension is neither
  \<open>.jpg\<close> nor \<open>.jpeg\<close> (letter case ignored), is rejected by the remote provider's
  \<open>describeImage\<close> with one of the validation errors, and no file is read and no request
  is sent: the list of effects is empty.\<close>

theorem describeImage_confined:
  "\<not> startsWith ref ''/uploads/'' \<or> includes_str ref ''..'' \<or> includes_str ref [CHR 0x5C]
     \<or> startsWith (stripUploads ref) ''/''
     \<or> (\<not> endsWith (toLowerCase ref) ''.jpg'' \<and> \<not> endsWith (toLowerCase ref) ''.jpeg'')
   \<Longrightarrow> fst (describeImage env ref) = []
       \<and> snd (describeImage env ref)
           \<in> Inl ` {''Invalid image path. Only /uploads/ paths are allowed.'',
                     ''Invalid image path.'',
                     ''Invalid image path. Only .jpg/.jpeg files are allowed.''}"
proof (cases "startsWith ref ''/uploads/''")
  case False
  then show ?thesis
    by (simp add: describeImage_def describeImage_try_def rejected_messages_kept)
next
  case True
  assume bad: "\<not> startsWith ref ''/uploads/'' \<or> includes_str ref ''..''
     \<or> includes_str ref [CHR 0x5C] \<or> startsWith (stripUploads ref) ''/''
     \<or> (\<not> endsWith (toLowerCase ref) ''.jpg'' \<and> \<not> endsWith (toLowerCase ref) ''.jpeg'')"
  from True obtain r where r: "ref = ''/uploads/'' @ r"
    using startsWith_decomp by blast
  have s: "stripUploads ref = r"
    using True unfolding r by (simp add: stripUploads_def)
  have i1: "includes_str ref ''..'' = includes_str r ''..''"
    unfolding r by (rule includes_uploads_dots)
  have i2: "includes_str ref [CHR 0x5C] = includes_str r [CHR 0x5C]"
    unfolding r by (rule includes_uploads_backslash)
  have e1: "endsWith (toLowerCase ref) ''.jpg'' = endsWith (toLowerCase r) ''.jpg''"
    unfolding r by (rule endsWith_uploads) simp
  have e2: "endsWith (toLowerCase ref) ''.jpeg'' = endsWith (toLowerCase r) ''.jpeg''"
    unfolding r by (rule endsWith_uploads) simp
  from bad True have "includes_str r ''..'' \<or> includes_str r [CHR 0x5C] \<or> startsWith r ''/''
     \<or> (\<not> endsWith (toLowerCase r) ''.jpg'' \<and> \<not> endsWith (toLowerCase r) ''.jpeg'')"
    by (simp add: s i1 i2 e1 e2)
  then show ?thesis
    using True
    by (auto simp: describeImage_def describeImage_try_def s rejected_messages_kept)
qed

theorem describeImage_confined_witness:
  "\<not> startsWith ''/etc/passwd'' ''/uploads/''
   \<and> describeImage ollamaUp ''/etc/passwd''
       = ([], Inl ''Invalid image path. Only /uploads/ paths are allowed.'')
   \<and> includes_str ''/uploads/../secret.jpg'' ''..''
   \<and> describeImage ollamaUp ''/uploads/../secret.jpg'' = ([], Inl ''Invalid image path.'')
   \<and> includes_str (''/uploads/a'' @ [CHR 0x5C] @ ''b.jpg'') [CHR 0x5C]
   \<and> describeImage ollamaUp (''/uploads/a'' @ [CHR 0x5C] @ ''b.jpg'')
       = ([], Inl ''Invalid image path.'')
   \<and> startsWith (stripUploads ''/uploads//etc/x.jpg'') ''/''
   \<and> describeImage ollamaUp ''/uploads//etc/x.jpg'' = ([], Inl ''Invalid image path.'')
   \<and> \<not> endsWith (toLowerCase ''/uploads/a.png'') ''.jpg''
   \<and> \<not> endsWith (toLowerCase ''/uploads/a.png'') ''.jpeg''
   \<and> describeImage ollamaUp ''/uploads/a.png''
       = ([], Inl ''Invalid image path. Only .jpg/.jpeg files are allowed.'')"
  using describeImage_confined [of "''/etc/passwd''" ollamaUp]
    describeImage_confined [of "''/uploads/../secret.jpg''" ollamaUp]
    describeImage_confined [of "''/uploads/a'' @ [CHR 0x5C] @ ''b.jpg''" ollamaUp]
    describeImage_confined [of "''/uploads//etc/x.jpg''" ollamaUp]
    describeImage_confined [of "''/uploads/a.png''" ollamaUp]
  by (simp add: startsWith_def endsWith_def toLowerCase_def lowerChar_def describeImage_def
      describeImage_try_def stripUploads_def describeImage_catch_def)

subsection \<open>Upload validation\<close>

lemma POST_photos_bad_type:
  "toLowerCase (fileType f) \<notin> set ALLOWED_MIME_TYPES \<Longrightarrow>
     POST_photos env w (Some userId) (Some f)
       = ((400, ErrorBody (''Invalid file type. Only JPEG/JPG images are allowed. Received: ''
                           @ fileType f)), w, [])"
  by (simp add: POST_photos_def)

lemma POST_photos_too_large:
  "toLowerCase (fileType f) \<in> set ALLOWED_MIME_TYPES \<Longrightarrow> fileSize f > MAX_FILE_SIZE \<Longrightarrow>
     POST_photos env w (Some userId) (Some f)
       = ((400, ErrorBody (''File size ('' @ sizeMB (fileSize f)
                           @ ''MB) exceeds the 10MB limit. Please upload a smaller image.'')),
          w, [])"
  by (simp add: POST_photos_def)

lemma POST_photos_parsed:
  "toLowerCase (fileType f) \<in> set ALLOWED_MIME_TYPES \<Longrightarrow> fileSize f \<le> MAX_FILE_SIZE \<Longrightarrow>
     \<exists>r w' rest. POST_photos env w (Some userId) (Some f)
                  = (r, w', ArrayBuffer # ExifParse # rest)"
  by (simp add: POST_photos_def Let_def split: sum.split option.split)

text \<open>C3: the type check comes first, the size check second, the EXIF extraction third.
  An authenticated upload whose content type, in lower case, is not an allowed JPEG type is
  answered with status 400 and the invalid-type message carrying the received type; the
  store is unchanged and nothing was done: neither the bytes were read nor the EXIF parser
  run, whatever the bytes, the size and the parser are. The size error is only returned
  when the type is allowed, and the EXIF parser only runs when the type is allowed and the
  size is within the limit.\<close>

theorem upload_type_check_first:
  "(toLowerCase (fileType f) \<notin> set ALLOWED_MIME_TYPES \<longrightarrow>
      POST_photos env w (Some userId) (Some f)
        = ((400, ErrorBody (''Invalid file type. Only JPEG/JPG images are allowed. Received: ''
                            @ fileType f)), w, []))
   \<and> (fst (POST_photos env w (Some userId) (Some f))
         = (400, ErrorBody (''File size ('' @ sizeMB (fileSize f)
                            @ ''MB) exceeds the 10MB limit. Please upload a smaller image.''))
       \<longrightarrow> toLowerCase (fileType f) \<in> set ALLOWED_MIME_TYPES)
   \<and> (ExifParse \<in> set (snd (snd (POST_photos env w (Some userId) (Some f))))
       \<longrightarrow> toLowerCase (fileType f) \<in> set ALLOWED_MIME_TYPES \<and> fileSize f \<le> MAX_FILE_SIZE)"
proof (cases "toLowerCase (fileType f) \<in> set ALLOWED_MIME_TYPES")
  case False
  then show ?thesis by (simp add: POST_photos_bad_type)
next
  case allowed: True
  show ?thesis
  proof (cases "fileSize f > MAX_FILE_SIZE")
    case True
    with allowed show ?thesis by (simp add: POST_photos_too_large)
  next
    case False
    with allowed show ?thesis by simp
  qed
qed

theorem upload_type_check_first_witness:
  "toLowerCase (fileType pngFile) \<notin> set ALLOWED_MIME_TYPES
   \<and> POST_photos parserThrows emptyWorld (Some ''alice'') (Some pngFile)
      = ((400, ErrorBody ''Invalid file type. Only JPEG/JPG images are allowed. Received: image/png''),
         emptyWorld, [])
   \<and> fst (POST_photos parserParis emptyWorld (Some ''alice'') (Some largeJpeg))
      = (400, ErrorBody ''File size (11.00MB) exceeds the 10MB limit. Please upload a smaller image.'')
   \<and> toLowerCase (fileType largeJpeg) \<in> set ALLOWED_MIME_TYPES
   \<and> ExifParse \<in> set (snd (snd (POST_photos parserThrows emptyWorld (Some ''alice'')
                                   (Some smallJpeg))))
   \<and> toLowerCase (fileType smallJpeg) \<in> set ALLOWED_MIME_TYPES
   \<and> fileSize smallJpeg \<le> MAX_FILE_SIZE"
  using
    upload_type_check_first [of pngFile parserThrows emptyWorld "''alice''"]
    upload_type_check_first [of largeJpeg parserParis emptyWorld "''alice''"]
    upload_type_check_first [of smallJpeg parserThrows emptyWorld "''alice''"]
  by (simp add: POST_photos_def toLowerCase_def lowerChar_def ALLOWED_MIME_TYPES_def
      MAX_FILE_SIZE_def pngFile_def parserThrows_def emptyWorld_def
      largeJpeg_def parserParis_def smallJpeg_def sizeMB_11MiB)

text \<open>C6, as stated, fails: an upload of 11 MiB whose content type is \<open>image/png\<close> is
  answered with the invalid-type error, not with the size error, because the type check
  runs first.\<close>

theorem upload_oversize_png_counterexample:
  "fileSize pngFile > 10 * 1024 * 1024
   \<and> fst (POST_photos parserParis emptyWorld (Some ''alice'') (Some pngFile))
       = (400, ErrorBody ''Invalid file type. Only JPEG/JPG images are allowed. Received: image/png'')
   \<and> fst (POST_photos parserParis emptyWorld (Some ''alice'') (Some pngFile))
       \<noteq> (400, ErrorBody (''File size ('' @ sizeMB (fileSize pngFile)
                          @ ''MB) exceeds the 10MB limit. Please upload a smaller image.''))"
  by (simp add: POST_photos_def toLowerCase_def lowerChar_def ALLOWED_MIME_TYPES_def pngFile_def
      parserParis_def emptyWorld_def)

text \<open>C6, amended: for every authenticated upload whose content type is an allowed JPEG
  type and whose size exceeds \<open>10 * 1024 * 1024\<close> bytes, the answer is status 400 with the
  size, in MB with two decimals, inside the message; the store is unchanged and the EXIF
  parser is not run, so the EXIF data, valid or not, plays no part. An upload of at most
  \<open>10 * 1024 * 1024\<close> bytes, exactly 10 MiB included, passes the size check: the handler
  goes on to read the bytes and to run the EXIF parser.\<close>

theorem upload_size_check:
  "toLowerCase (fileType f) \<in> set ALLOWED_MIME_TYPES \<Longrightarrow>
   (fileSize f > 10 * 1024 * 1024 \<longrightarrow>
      POST_photos env w (Some userId) (Some f)
        = ((400, ErrorBody (''File size ('' @ sizeMB (fileSize f)
                            @ ''MB) exceeds the 10MB limit. Please upload a smaller image.'')),
           w, []))
   \<and> (fileSize f \<le> 10 * 1024 * 1024 \<longrightarrow>
        take 2 (snd (snd (POST_photos env w (Some userId) (Some f)))) = [ArrayBuffer, ExifParse])"
proof (intro conjI impI)
  assume a: "toLowerCase (fileType f) \<in> set ALLOWED_MIME_TYPES"
  { assume "fileSize f > 10 * 1024 * 1024"
    then have "fileSize f > MAX_FILE_SIZE" by (simp add: MAX_FILE_SIZE_def)
    with a show "POST_photos env w (Some userId) (Some f)
        = ((400, ErrorBody (''File size ('' @ sizeMB (fileSize f)
                            @ ''MB) exceeds the 10MB limit. Please upload a smaller image.'')),
           w, [])"
      by (rule POST_photos_too_large) }
  { assume "fileSize f \<le> 10 * 1024 * 1024"
    then have "fileSize f \<le> MAX_FILE_SIZE" by (simp add: MAX_FILE_SIZE_def)
    with a obtain r w' rest where
      "POST_photos env w (Some userId) (Some f) = (r, w', ArrayBuffer # ExifParse # rest)"
      using POST_photos_parsed by blast
    then show "take 2 (snd (snd (POST_photos env w (Some userId) (Some f))))
        = [ArrayBuffer, ExifParse]"
      by simp }
qed

theorem upload_size_check_witness:
  "toLowerCase (fileType largeJpeg) \<in> set ALLOWED_MIME_TYPES
   \<and> fileSize largeJpeg > 10 * 1024 * 1024
   \<and> POST_photos parserParis emptyWorld (Some ''alice'') (Some largeJpeg)
       = ((400, ErrorBody ''File size (11.00MB) exceeds the 10MB limit. Please upload a smaller image.''),
          emptyWorld, [])
   \<and> toLowerCase (fileType limitJpeg) \<in> set ALLOWED_MIME_TYPES
   \<and> fileSize limitJpeg = 10 * 1024 * 1024
   \<and> take 2 (snd (snd (POST_photos parserParis emptyWorld (Some ''alice'') (Some limitJpeg))))
       = [ArrayBuffer, ExifParse]
   \<and> fst (fst (POST_photos parserParis emptyWorld (Some ''alice'') (Some limitJpeg))) = 201"
  using
    upload_size_check [of largeJpeg parserParis emptyWorld "''alice''"]
    upload_size_check [of limitJpeg parserParis emptyWorld "''alice''"]
  by (simp add: POST_photos_def toLowerCase_def lowerChar_def ALLOWED_MIME_TYPES_def
      MAX_FILE_SIZE_def largeJpeg_def limitJpeg_def parserParis_def emptyWorld_def sizeMB_11MiB optField_def orElse_def truthy_def
      normalizeGps_def Let_def)

subsection \<open>Selection of the coordinates\<close>






subsection \<open>Ownership gate of delete and regenerate\<close>

lemma findOwned_None_iff:
  "findOwned w pid u = None \<longleftrightarrow> \<not> (\<exists>p. photos w pid = Some p \<and> ownerId p = u)"
  by (auto simp: findOwned_def split: option.splits)

text \<open>C4: when no photo has the id, or the photo with the id belongs to another user,
  delete and regenerate both answer the caller with the same status 404 and the same body,
  and leave the store as it was (rows, files, comments, pending work), with no effect
  performed. Either request answers 200 only if a photo with the id exists and the caller
  owns it.\<close>

theorem delete_regenerate_not_found:
  "(\<not> (\<exists>p. photos w pid = Some p \<and> ownerId p = caller) \<longrightarrow>
      DELETE_photo w (Some caller) pid = ((404, ErrorBody ''Photo not found''), w, [])
      \<and> POST_regenerate w (Some caller) pid = ((404, ErrorBody ''Photo not found''), w, []))
   \<and> (fst (fst (DELETE_photo w (Some caller) pid)) = 200 \<longrightarrow>
        (\<exists>p. photos w pid = Some p \<and> ownerId p = caller))
   \<and> (fst (fst (POST_regenerate w (Some caller) pid)) = 200 \<longrightarrow>
        (\<exists>p. photos w pid = Some p \<and> ownerId p = caller))"
proof (cases "findOwned w pid caller")
  case None
  then show ?thesis
    by (simp add: findOwned_None_iff [symmetric] DELETE_photo_def POST_regenerate_def)
next
  case (Some p)
  then have "\<exists>p. photos w pid = Some p \<and> ownerId p = caller"
    using findOwned_None_iff [of w pid caller] by simp
  then show ?thesis by simp
qed

theorem delete_regenerate_not_found_witness:
  "\<not> (\<exists>p. photos aliceWorld ''p1'' = Some p \<and> ownerId p = ''bob'')
   \<and> DELETE_photo aliceWorld (Some ''bob'') ''p1''
       = ((404, ErrorBody ''Photo not found''), aliceWorld, [])
   \<and> POST_regenerate aliceWorld (Some ''bob'') ''p1''
       = ((404, ErrorBody ''Photo not found''), aliceWorld, [])
   \<and> \<not> (\<exists>p. photos aliceWorld ''p2'' = Some p \<and> ownerId p = ''bob'')
   \<and> DELETE_photo aliceWorld (Some ''bob'') ''p2''
       = ((404, ErrorBody ''Photo not found''), aliceWorld, [])
   \<and> POST_regenerate aliceWorld (Some ''bob'') ''p2''
       = ((404, ErrorBody ''Photo not found''), aliceWorld, [])
   \<and> fst (fst (DELETE_photo aliceWorld (Some ''alice'') ''p1'')) = 200
   \<and> fst (fst (POST_regenerate aliceWorld (Some ''alice'') ''p1'')) = 200
   \<and> photos aliceWorld ''p1'' = Some alicePhoto \<and> ownerId alicePhoto = ''alice''"
  using delete_regenerate_not_found [of aliceWorld "''p1''" "''bob''"]
    delete_regenerate_not_found [of aliceWorld "''p2''" "''bob''"]
    delete_regenerate_not_found [of aliceWorld "''p1''" "''alice''"]
  by (simp add: DELETE_photo_def POST_regenerate_def findOwned_def dbUpdate_def aliceWorld_def
      alicePhoto_def)

subsection \<open>Regeneration\<close>

text \<open>C5: a regenerate request of the owner writes \<open>PENDING\<close> with description and error
  cleared, then starts the provider call, then answers 200 with \<open>PENDING\<close>. The effects are
  the update followed by the dispatch, and in the store the handler returns the new call is
  pending, that is, not settled: its completion write is a later step on that store.\<close>

theorem regenerate_resets_before_dispatch:
  "photos w pid = Some p \<Longrightarrow> ownerId p = caller \<Longrightarrow>
   POST_regenerate w (Some caller) pid
     = ((200, RegenerateBody ''AI description regeneration started'' PENDING),
        w\<lparr>photos := (photos w)(pid \<mapsto> p\<lparr>aiStatus := PENDING, aiDescription := None,
                                          aiError := None\<rparr>),
          pending := pending w @ [RegenerateTask pid (url p)]\<rparr>,
        [DbUpdatePhoto pid, Dispatch pid (url p)])"
  by (simp add: POST_regenerate_def findOwned_def dbUpdate_def)

theorem regenerate_resets_before_dispatch_witness:
  "photos aliceWorld ''p1'' = Some alicePhoto \<and> ownerId alicePhoto = ''alice''
   \<and> POST_regenerate aliceWorld (Some ''alice'') ''p1''
     = ((200, RegenerateBody ''AI description regeneration started'' PENDING),
        aliceWorld\<lparr>photos := [''p1'' \<mapsto> alicePhoto\<lparr>aiStatus := PENDING,
                                                     aiDescription := None\<rparr>],
          pending := [RegenerateTask ''p1'' ''/uploads/u1.jpg'']\<rparr>,
        [DbUpdatePhoto ''p1'', Dispatch ''p1'' ''/uploads/u1.jpg''])"
  using regenerate_resets_before_dispatch [of aliceWorld "''p1''" alicePhoto "''alice''"]
  by (simp add: aliceWorld_def alicePhoto_def)

subsection \<open>Comments\<close>

lemma trim_Nil: "trim [] = []"
  by (simp add: trim_def)

lemma trim_replicate_a: "trim (replicate n CHR ''a'') = replicate n CHR ''a''"
  by (simp add: trim_def isWhiteSpace_def)

text \<open>C7: an authenticated add-comment request on an existing photo whose content is a
  string. When the trimmed content is empty or longer than 500 characters the answer is
  status 400 and nothing is stored; when its length is between 1 and 500, 500 included, the
  answer is status 201 and the comment, with the trimmed content, is appended.\<close>

theorem comment_length_bounds:
  "photos w pid = Some p \<Longrightarrow> pid \<noteq> [] \<Longrightarrow>
   (length (trim c) = 0 \<or> length (trim c) > 500 \<longrightarrow>
      fst (fst (POST_comments env w (Some caller) pid (Body (Some c)))) = 400
      \<and> snd (POST_comments env w (Some caller) pid (Body (Some c))) = (w, []))
   \<and> (1 \<le> length (trim c) \<and> length (trim c) \<le> 500 \<longrightarrow>
        POST_comments env w (Some caller) pid (Body (Some c))
          = ((201, CommentBody (newCommentId env) (trim c) (commentNow env) caller),
             w\<lparr>comments := comments w @
                  [\<lparr>commentId = newCommentId env, photoId = pid, authorId = caller,
                    commentContent = trim c, commentCreatedAt = commentNow env\<rparr>]\<rparr>,
             [DbCreateComment (newCommentId env)]))"
  by (auto simp: POST_comments_def verifyPhotoExists_def trim_Nil Let_def)

theorem comment_length_bounds_witness:
  "photos aliceWorld ''p1'' = Some alicePhoto \<and> ''p1'' \<noteq> []
   \<and> length (trim (replicate 501 CHR ''a'')) > 500
   \<and> fst (fst (POST_comments commentEnv aliceWorld (Some ''bob'') ''p1''
                  (Body (Some (replicate 501 CHR ''a''))))) = 400
   \<and> snd (POST_comments commentEnv aliceWorld (Some ''bob'') ''p1''
             (Body (Some (replicate 501 CHR ''a'')))) = (aliceWorld, [])
   \<and> length (trim ''   '') = 0
   \<and> fst (fst (POST_comments commentEnv aliceWorld (Some ''bob'') ''p1''
                  (Body (Some ''   '')))) = 400
   \<and> length (trim (replicate 500 CHR ''a'')) = 500
   \<and> POST_comments commentEnv aliceWorld (Some ''bob'') ''p1''
         (Body (Some (replicate 500 CHR ''a'')))
       = ((201, CommentBody ''c2'' (replicate 500 CHR ''a'') 2 ''bob''),
          aliceWorld\<lparr>comments := comments aliceWorld @
               [\<lparr>commentId = ''c2'', photoId = ''p1'', authorId = ''bob'',
                 commentContent = replicate 500 CHR ''a'', commentCreatedAt = 2\<rparr>]\<rparr>,
          [DbCreateComment ''c2''])"
  using
    comment_length_bounds [of aliceWorld "''p1''" alicePhoto "replicate 501 CHR ''a''"
      commentEnv "''bob''"]
    comment_length_bounds [of aliceWorld "''p1''" alicePhoto "''   ''" commentEnv "''bob''"]
    comment_length_bounds [of aliceWorld "''p1''" alicePhoto "replicate 500 CHR ''a''"
      commentEnv "''bob''"]
  by (simp add: trim_replicate_a aliceWorld_def commentEnv_def trim_def isWhiteSpace_def)

subsection \<open>Enrichment state\<close>

lemma outcome_ollamaUp:
  "providerOutcome (Some ''ollama'') ollamaUp ''/uploads/u1.jpg'' = Inr ''empty train tracks''"
  by (simp add: providerOutcome_def getVisionProvider_def describeImage_def describeImage_try_def
      stripUploads_def startsWith_def endsWith_def toLowerCase_def lowerChar_def ollamaUp_def)

lemma outcome_ollamaDown:
  "providerOutcome (Some ''ollama'') ollamaDown ''/uploads/u1.jpg''
   = Inl ''Cannot connect to Ollama at http://localhost:11434. Make sure Ollama is running.''"
  by (simp add: providerOutcome_def getVisionProvider_def describeImage_def describeImage_try_def
      describeImage_catch_def stripUploads_def startsWith_def endsWith_def toLowerCase_def
      lowerChar_def ollamaDown_def)

lemma upload_paris:
  "POST_photos parserParis emptyWorld (Some ''alice'') (Some smallJpeg)
   = ((201, PhotoBody ''p1'' ''/uploads/u1.jpg'' 48.8584 2.2945 0 PENDING None),
      \<lparr>photos = [''p1'' \<mapsto> \<lparr>ownerId = ''alice'', url = ''/uploads/u1.jpg'', lat = 48.8584,
                             lng = 2.2945, createdAt = 0, aiStatus = PENDING,
                             aiDescription = None, aiError = None\<rparr>],
       comments = [], uploads = [''/uploads/u1.jpg'' \<mapsto> ''jpeg bytes''],
       pending = [UploadTask ''p1'' ''/uploads/u1.jpg'']\<rparr>,
      [ArrayBuffer, ExifParse, WriteFile ''/uploads/u1.jpg'', DbCreatePhoto ''p1'',
       Dispatch ''p1'' ''/uploads/u1.jpg''])"
  by (simp add: POST_photos_def toLowerCase_def lowerChar_def ALLOWED_MIME_TYPES_def
      MAX_FILE_SIZE_def optField_def orElse_def truthy_def normalizeGps_def Let_def
      emptyWorld_def parserParis_def smallJpeg_def)

text \<open>The error write of a completion sets the status and the error and leaves the
  description as it is; the success write and the reset write set all three fields.\<close>

lemma error_write_keeps_description:
  "photos w pid = Some p \<Longrightarrow>
   photos (generateAIDescription (Inl m) pid w) pid = Some (p\<lparr>aiStatus := ERROR, aiError := Some m\<rparr>)
   \<and> photos (regenerateCompletion (Inl m) pid w) pid
       = Some (p\<lparr>aiStatus := ERROR, aiError := Some m\<rparr>)"
  by (simp add: generateAIDescription_def regenerateCompletion_def dbUpdate_def)

text \<open>C1 does not hold of the code. A user uploads a photo and asks for a regeneration
  while the provider call of the upload is still pending; the first call succeeds and
  writes \<open>DONE\<close> with a description, then the second call fails and writes \<open>ERROR\<close> with
  an error, without clearing the description. The photo ends with status \<open>ERROR\<close> and with
  both the description and the error set.\<close>

theorem overlapping_enrichment_sets_both:
  "photos (run emptyWorld
             [Upload parserParis (Some ''alice'') (Some smallJpeg),
              Regenerate (Some ''alice'') ''p1'',
              Settle (Some ''ollama'') ollamaUp 0,
              Settle (Some ''ollama'') ollamaDown 0]) ''p1''
   = Some \<lparr>ownerId = ''alice'', url = ''/uploads/u1.jpg'', lat = 48.8584, lng = 2.2945,
            createdAt = 0, aiStatus = ERROR, aiDescription = Some ''empty train tracks'',
            aiError = Some ''Cannot connect to Ollama at http://localhost:11434. Make sure Ollama is running.''\<rparr>"
  by (simp add: run_def upload_paris POST_regenerate_def findOwned_def dbUpdate_def settle_def
      generateAIDescription_def regenerateCompletion_def outcome_ollamaUp outcome_ollamaDown
      Let_def)

end
